theory Spec2Isabelle
  imports Main
begin

section \<open>Data model\<close>

text \<open>
  The PBX server is C code over a heap of telephone units (\<open>struct tu\<close>) and one
  registry (\<open>struct pbx\<close>), guarded by POSIX semaphores. The embedding keeps that
  shape: a world holds the allocated objects by address, every C function is a
  function from a world to a result, and a result is either a return value with the
  world left behind, a thread that sits in \<open>sem_wait\<close> on a semaphore whose value is 0
  (no other thread is modelled, so nobody will post it), or a fault (a dereference of
  \<open>NULL\<close>, of freed storage, or an access outside an array).
\<close>

datatype TU_STATE =
  TU_ON_HOOK | TU_RINGING | TU_DIAL_TONE | TU_RING_BACK | TU_BUSY_SIGNAL | TU_CONNECTED | TU_ERROR

type_synonym addr = nat

text \<open>\<open>struct tu\<close>; a pointer is an \<open>addr option\<close>, \<open>None\<close> being \<open>NULL\<close>.\<close>

record TU =
  tu_mutex :: nat
  state :: TU_STATE
  references :: int
  ext :: int
  fd :: int
  peer :: "addr option"

text \<open>
  \<open>struct pbx\<close>. The table \<open>pbx_entries\<close> is an array of \<open>PBX_MAX_EXTENSIONS\<close> cells;
  it is kept as a function on indices, and every access checks the bounds itself.
\<close>

record PBX =
  num_entries :: int
  entries_mutex :: nat
  pbx_mutex :: nat
  pbx_entries :: "nat \<Rightarrow> addr option"

datatype lock = TuMutex addr | PbxMutex addr | EntriesMutex addr

datatype event = Wait lock | Post lock

text \<open>
  The world: the live telephone units and registries by address, the next address the
  allocator hands out, the lines that reached a descriptor (\<open>sent\<close>, oldest first),
  the descriptors on which \<open>write\<close> fails, and the semaphore operations the thread has
  completed so far (\<open>sems\<close>, oldest first).
\<close>

record world =
  tus :: "addr \<Rightarrow> TU option"
  pbxs :: "addr \<Rightarrow> PBX option"
  brk :: addr
  sent :: "(int \<times> string) list"
  write_fails :: "int \<Rightarrow> bool"
  sems :: "event list"

datatype 'a result = Return 'a world | Blocked world | Fault

type_synonym 'a prog = "world \<Rightarrow> 'a result"

definition ret :: "'a \<Rightarrow> 'a prog" where
  "ret x = (\<lambda>w. Return x w)"

definition fault :: "'a prog" where
  "fault = (\<lambda>w. Fault)"

definition seq :: "'a prog \<Rightarrow> ('a \<Rightarrow> 'b prog) \<Rightarrow> 'b prog" where
  "seq m k = (\<lambda>w. case m w of Return x w' \<Rightarrow> k x w' | Blocked w' \<Rightarrow> Blocked w' | Fault \<Rightarrow> Fault)"

text \<open>Reading and writing through a pointer to a telephone unit.\<close>

definition deref :: "addr option \<Rightarrow> TU prog" where
  "deref p = (\<lambda>w. case p of None \<Rightarrow> Fault
     | Some a \<Rightarrow> (case tus w a of None \<Rightarrow> Fault | Some t \<Rightarrow> Return t w))"

definition assign :: "addr option \<Rightarrow> (TU \<Rightarrow> TU) \<Rightarrow> unit prog" where
  "assign p f = (\<lambda>w. case p of None \<Rightarrow> Fault
     | Some a \<Rightarrow> (case tus w a of None \<Rightarrow> Fault
         | Some t \<Rightarrow> Return () (w\<lparr>tus := (tus w)(a \<mapsto> f t)\<rparr>)))"

definition peer_of :: "addr option \<Rightarrow> addr option prog" where
  "peer_of p = seq (deref p) (\<lambda>t. ret (peer t))"

definition state_of :: "addr option \<Rightarrow> TU_STATE prog" where
  "state_of p = seq (deref p) (\<lambda>t. ret (state t))"

text \<open>
  \<open>sem_wait(&tu->tu_mutex)\<close> and \<open>sem_post(&tu->tu_mutex)\<close>. The calls themselves are
  taken to succeed (the source's branches for a failing \<open>sem_wait\<close> or \<open>sem_post\<close>
  print a diagnostic and return -1; they are not reached here).
\<close>

definition tu_sem_wait :: "addr option \<Rightarrow> unit prog" where
  "tu_sem_wait p = (\<lambda>w. case p of None \<Rightarrow> Fault
     | Some a \<Rightarrow> (case tus w a of None \<Rightarrow> Fault
         | Some t \<Rightarrow>
             if tu_mutex t = 0 then Blocked w
             else Return () (w\<lparr>tus := (tus w)(a \<mapsto> t\<lparr>tu_mutex := tu_mutex t - 1\<rparr>),
                               sems := sems w @ [Wait (TuMutex a)]\<rparr>)))"

definition tu_sem_post :: "addr option \<Rightarrow> unit prog" where
  "tu_sem_post p = (\<lambda>w. case p of None \<Rightarrow> Fault
     | Some a \<Rightarrow> (case tus w a of None \<Rightarrow> Fault
         | Some t \<Rightarrow>
             Return () (w\<lparr>tus := (tus w)(a \<mapsto> t\<lparr>tu_mutex := tu_mutex t + 1\<rparr>),
                          sems := sems w @ [Post (TuMutex a)]\<rparr>)))"

text \<open>Pointer comparison \<open>p < q\<close>; \<open>NULL\<close> is below every object.\<close>

definition ptr_less :: "addr option \<Rightarrow> addr option \<Rightarrow> bool" where
  "ptr_less p q = (case q of None \<Rightarrow> False
     | Some b \<Rightarrow> (case p of None \<Rightarrow> True | Some a \<Rightarrow> a < b))"

section \<open>Notifications\<close>

text \<open>
  Modelled from the spec: \<open>tu_state_names\<close> is declared in \<open>pbx.h\<close>, which is not
  among the sources; the names are the wire forms of the specification's notification
  table.
\<close>

fun tu_state_names :: "TU_STATE \<Rightarrow> string" where
  "tu_state_names TU_ON_HOOK = ''ON HOOK''"
| "tu_state_names TU_RINGING = ''RINGING''"
| "tu_state_names TU_DIAL_TONE = ''DIAL TONE''"
| "tu_state_names TU_RING_BACK = ''RING BACK''"
| "tu_state_names TU_BUSY_SIGNAL = ''BUSY SIGNAL''"
| "tu_state_names TU_CONNECTED = ''CONNECTED''"
| "tu_state_names TU_ERROR = ''ERROR''"

text \<open>
  Modelled from the spec: \<open>PBX_MAX_EXTENSIONS\<close> is a macro of \<open>pbx.h\<close>, which is not
  among the sources; the specification gives 1024 as the size of the table.
\<close>

definition PBX_MAX_EXTENSIONS :: int where
  "PBX_MAX_EXTENSIONS = 1024"

definition BUFFER :: nat where
  "BUFFER = 8192"

text \<open>\<open>printf\<close>'s \<open>%d\<close>.\<close>

fun show_nat :: "nat \<Rightarrow> string" where
  "show_nat n = (if n < 10 then [''0123456789'' ! n]
                 else show_nat (n div 10) @ [''0123456789'' ! (n mod 10)])"

declare show_nat.simps [simp del]

definition show_int :: "int \<Rightarrow> string" where
  "show_int i = (if i < 0 then CHR ''-'' # show_nat (nat (- i)) else show_nat (nat i))"

definition LF :: char where
  "LF = CHR 0x0A"

text \<open>
  \<open>write(fd, buffer, count)\<close>: the line reaches the descriptor, or the call fails
  (a negative or a short count, which \<open>send_to_client\<close> treats alike) and nothing
  is recorded.
\<close>

definition sys_write :: "int \<Rightarrow> string \<Rightarrow> int prog" where
  "sys_write d buffer = (\<lambda>w.
     if write_fails w d then Return (- 1) w
     else Return 0 (w\<lparr>sent := sent w @ [(d, buffer)]\<rparr>))"

text \<open>
  \<open>send_to_client\<close>. \<open>sprintf\<close> fills a local array of \<open>BUFFER\<close> bytes; a line that
  does not fit with its terminator overruns it.
\<close>

definition send_to_client :: "addr option \<Rightarrow> TU_STATE \<Rightarrow> string option \<Rightarrow> int prog" where
  "send_to_client target st msg =
     seq (deref target) (\<lambda>t.
       if fd t < 0 then ret (- 1)
       else
         seq (if st = TU_CONNECTED then
                (case msg of
                   None \<Rightarrow> seq (deref (peer t)) (\<lambda>p.
                             ret (tu_state_names st @ '' '' @ show_int (ext p) @ [LF]))
                 | Some m \<Rightarrow> ret (m @ [LF]))
              else if st = TU_ON_HOOK then
                ret (tu_state_names st @ '' '' @ show_int (ext t) @ [LF])
              else ret (tu_state_names st @ [LF]))
           (\<lambda>buffer. if BUFFER \<le> length buffer then fault else sys_write (fd t) buffer))"

section \<open>Telephone unit operations\<close>

text \<open>
  \<open>tu_init\<close>: \<open>calloc\<close> and \<open>sem_init\<close> are taken to succeed; the new unit gets the
  next address.
\<close>

definition tu_init :: "int \<Rightarrow> addr option prog" where
  "tu_init d = (\<lambda>w.
     Return (Some (brk w))
       (w\<lparr>tus := (tus w)(brk w \<mapsto>
              \<lparr>tu_mutex = 1, state = TU_ON_HOOK, references = 0, ext = - 1, fd = d,
               peer = None\<rparr>),
          brk := brk w + 1\<rparr>))"

text \<open>
  \<open>tu_ref\<close> and \<open>tu_unref\<close> print a diagnostic for a \<open>NULL\<close> unit and go on to
  dereference it. \<open>tu_unref\<close> frees the unit when the count reaches 0.
\<close>

definition tu_ref :: "addr option \<Rightarrow> unit prog" where
  "tu_ref tu = assign tu (\<lambda>t. t\<lparr>references := references t + 1\<rparr>)"

definition release :: "addr option \<Rightarrow> unit prog" where
  "release p = (\<lambda>w. case p of None \<Rightarrow> Return () w
     | Some a \<Rightarrow> Return () (w\<lparr>tus := (tus w)(a := None)\<rparr>))"

definition tu_unref :: "addr option \<Rightarrow> unit prog" where
  "tu_unref tu =
     seq (assign tu (\<lambda>t. t\<lparr>references := references t - 1\<rparr>)) (\<lambda>_.
     seq (deref tu) (\<lambda>t.
       if references t = 0 then release tu else ret ()))"

definition tu_extension :: "addr option \<Rightarrow> int prog" where
  "tu_extension tu =
     (if tu = None then ret (- 1)
      else
        seq (tu_sem_wait tu) (\<lambda>_.
        seq (deref tu) (\<lambda>t.
          if 0 \<le> ext t then seq (tu_sem_post tu) (\<lambda>_. ret (ext t))
          else seq (tu_sem_post tu) (\<lambda>_. ret (- 1)))))"

definition tu_set_extension :: "addr option \<Rightarrow> int \<Rightarrow> int prog" where
  "tu_set_extension tu e =
     (if tu = None then ret (- 1)
      else if e < 0 \<or> e > PBX_MAX_EXTENSIONS - 1 then ret (- 1)
      else
        seq (tu_sem_wait tu) (\<lambda>_.
        seq (assign tu (\<lambda>t. t\<lparr>ext := e\<rparr>)) (\<lambda>_.
        seq (assign tu (\<lambda>t. t\<lparr>state := TU_ON_HOOK\<rparr>)) (\<lambda>_.
        seq (state_of tu) (\<lambda>s.
        seq (send_to_client tu s None) (\<lambda>_.
        seq (tu_sem_post tu) (\<lambda>_. ret 0)))))))"

text \<open>
  \<open>tu_dial\<close>, in the two parts the source has: up to the release of the originating
  unit's semaphore (\<open>tu_dial\<close>), and from the acquisition of both semaphores on
  (\<open>tu_dial_pair\<close>).
\<close>

definition tu_dial_pair :: "addr option \<Rightarrow> addr option \<Rightarrow> int prog" where
  "tu_dial_pair tu target =
     seq (if ptr_less tu target
          then seq (tu_sem_wait tu) (\<lambda>_. tu_sem_wait target)
          else seq (tu_sem_wait target) (\<lambda>_. tu_sem_wait tu)) (\<lambda>_.
     seq (peer_of tu) (\<lambda>p.
     seq (state_of target) (\<lambda>ts.
       if p \<noteq> None \<or> ts \<noteq> TU_ON_HOOK then
         seq (assign tu (\<lambda>t. t\<lparr>state := TU_BUSY_SIGNAL\<rparr>)) (\<lambda>_.
         seq (state_of tu) (\<lambda>s.
         seq (send_to_client tu s None) (\<lambda>r.
         seq (tu_sem_post target) (\<lambda>_.
         seq (tu_sem_post tu) (\<lambda>_.
         ret (if r \<noteq> 0 then - 1 else 0))))))
       else
         seq (assign tu (\<lambda>t. t\<lparr>peer := target\<rparr>)) (\<lambda>_.
         seq (assign target (\<lambda>t. t\<lparr>peer := tu\<rparr>)) (\<lambda>_.
         seq (assign tu (\<lambda>t. t\<lparr>state := TU_RING_BACK\<rparr>)) (\<lambda>_.
         seq (assign target (\<lambda>t. t\<lparr>state := TU_RINGING\<rparr>)) (\<lambda>_.
         seq (tu_ref tu) (\<lambda>_.
         seq (tu_ref target) (\<lambda>_.
         seq (state_of tu) (\<lambda>s1.
         seq (send_to_client tu s1 None) (\<lambda>r1.
         seq (state_of target) (\<lambda>s2.
         seq (send_to_client target s2 None) (\<lambda>r2.
         seq (tu_sem_post target) (\<lambda>_.
         seq (tu_sem_post tu) (\<lambda>_.
         ret (if r1 \<noteq> 0 \<or> r2 \<noteq> 0 then - 1 else 0))))))))))))))))"

definition tu_dial :: "addr option \<Rightarrow> addr option \<Rightarrow> int prog" where
  "tu_dial tu target =
     (if tu = None \<and> target = None then ret (- 1)
      else
        seq (tu_sem_wait tu) (\<lambda>_.
        seq (state_of tu) (\<lambda>s0.
          if s0 \<noteq> TU_DIAL_TONE then
            seq (send_to_client tu s0 None) (\<lambda>r.
            seq (tu_sem_post tu) (\<lambda>_.
            ret (if r \<noteq> 0 then - 1 else 0)))
          else if s0 = TU_DIAL_TONE \<and> tu \<noteq> None \<and> target = None then
            seq (assign tu (\<lambda>t. t\<lparr>state := TU_ERROR\<rparr>)) (\<lambda>_.
            seq (state_of tu) (\<lambda>s.
            seq (send_to_client tu s None) (\<lambda>r.
            seq (tu_sem_post tu) (\<lambda>_.
            ret (if r \<noteq> 0 then - 1 else 0)))))
          else if tu = target then
            seq (assign tu (\<lambda>t. t\<lparr>state := TU_BUSY_SIGNAL\<rparr>)) (\<lambda>_.
            seq (state_of tu) (\<lambda>s.
            seq (send_to_client tu s None) (\<lambda>r.
            seq (tu_sem_post tu) (\<lambda>_.
            ret (if r \<noteq> 0 then - 1 else 0)))))
          else
            seq (tu_sem_post tu) (\<lambda>_. tu_dial_pair tu target))))"

definition tu_pickup :: "addr option \<Rightarrow> int prog" where
  "tu_pickup tu =
     (if tu = None then ret (- 1)
      else
        seq (tu_sem_wait tu) (\<lambda>_.
        seq (state_of tu) (\<lambda>s0.
          if s0 \<noteq> TU_ON_HOOK \<and> s0 \<noteq> TU_RINGING then
            seq (send_to_client tu s0 None) (\<lambda>r.
            seq (tu_sem_post tu) (\<lambda>_.
            ret (if r \<noteq> 0 then - 1 else 0)))
          else if s0 = TU_ON_HOOK then
            seq (assign tu (\<lambda>t. t\<lparr>state := TU_DIAL_TONE\<rparr>)) (\<lambda>_.
            seq (state_of tu) (\<lambda>s.
            seq (send_to_client tu s None) (\<lambda>r.
            seq (tu_sem_post tu) (\<lambda>_.
            ret (if r \<noteq> 0 then - 1 else 0)))))
          else if s0 = TU_RINGING then
            seq (peer_of tu) (\<lambda>p.
            seq (tu_sem_wait p) (\<lambda>_.
            seq (assign tu (\<lambda>t. t\<lparr>state := TU_CONNECTED\<rparr>)) (\<lambda>_.
            seq (peer_of tu) (\<lambda>p1.
            seq (assign p1 (\<lambda>t. t\<lparr>state := TU_CONNECTED\<rparr>)) (\<lambda>_.
            seq (state_of tu) (\<lambda>s1.
            seq (send_to_client tu s1 None) (\<lambda>r1.
            seq (peer_of tu) (\<lambda>p2.
            seq (state_of p2) (\<lambda>s2.
            seq (send_to_client p2 s2 None) (\<lambda>r2.
            seq (tu_sem_post tu) (\<lambda>_.
            seq (peer_of tu) (\<lambda>p3.
            seq (tu_sem_post p3) (\<lambda>_.
            ret (if r1 \<noteq> 0 \<or> r2 \<noteq> 0 then - 1 else 0))))))))))))))
          else
            seq (send_to_client tu s0 None) (\<lambda>r.
            seq (tu_sem_post tu) (\<lambda>_.
            ret (if r \<noteq> 0 then - 1 else 0))))))"

definition tu_hangup :: "addr option \<Rightarrow> int prog" where
  "tu_hangup tu =
     (if tu = None then ret (- 1)
      else
        seq (tu_sem_wait tu) (\<lambda>_.
        seq (state_of tu) (\<lambda>s0.
          if s0 = TU_CONNECTED \<or> s0 = TU_RINGING then
            seq (peer_of tu) (\<lambda>p.
            seq (tu_sem_wait p) (\<lambda>_.
            seq (assign tu (\<lambda>t. t\<lparr>state := TU_ON_HOOK\<rparr>)) (\<lambda>_.
            seq (peer_of tu) (\<lambda>p1.
            seq (assign p1 (\<lambda>t. t\<lparr>state := TU_DIAL_TONE\<rparr>)) (\<lambda>_.
            seq (tu_unref tu) (\<lambda>_.
            seq (peer_of tu) (\<lambda>p2.
            seq (tu_unref p2) (\<lambda>_.
            seq (state_of tu) (\<lambda>s1.
            seq (send_to_client tu s1 None) (\<lambda>r1.
            seq (peer_of tu) (\<lambda>p3.
            seq (state_of p3) (\<lambda>s2.
            seq (send_to_client p3 s2 None) (\<lambda>r2.
            seq (peer_of tu) (\<lambda>p4.
            seq (assign p4 (\<lambda>t. t\<lparr>peer := None\<rparr>)) (\<lambda>_.
            seq (peer_of tu) (\<lambda>p5.
            seq (tu_sem_post p5) (\<lambda>_.
            seq (assign tu (\<lambda>t. t\<lparr>peer := None\<rparr>)) (\<lambda>_.
            seq (tu_sem_post tu) (\<lambda>_.
            ret (if r1 \<noteq> 0 \<or> r2 \<noteq> 0 then - 1 else 0))))))))))))))))))))
          else if s0 = TU_RING_BACK then
            seq (peer_of tu) (\<lambda>p.
            seq (tu_sem_wait p) (\<lambda>_.
            seq (assign tu (\<lambda>t. t\<lparr>state := TU_ON_HOOK\<rparr>)) (\<lambda>_.
            seq (peer_of tu) (\<lambda>p1.
            seq (assign p1 (\<lambda>t. t\<lparr>state := TU_ON_HOOK\<rparr>)) (\<lambda>_.
            seq (state_of tu) (\<lambda>s1.
            seq (send_to_client tu s1 None) (\<lambda>r1.
            seq (peer_of tu) (\<lambda>p2.
            seq (state_of p2) (\<lambda>s2.
            seq (send_to_client p2 s2 None) (\<lambda>r2.
            seq (tu_sem_post tu) (\<lambda>_.
            seq (peer_of tu) (\<lambda>p3.
            seq (tu_sem_post p3) (\<lambda>_.
            ret (if r1 \<noteq> 0 \<or> r2 \<noteq> 0 then - 1 else 0))))))))))))))
          else if s0 = TU_DIAL_TONE \<or> s0 = TU_BUSY_SIGNAL \<or> s0 = TU_ERROR then
            seq (assign tu (\<lambda>t. t\<lparr>state := TU_ON_HOOK\<rparr>)) (\<lambda>_.
            seq (state_of tu) (\<lambda>s.
            seq (send_to_client tu s None) (\<lambda>r.
            seq (tu_sem_post tu) (\<lambda>_.
            ret (if r \<noteq> 0 then - 1 else 0)))))
          else
            seq (send_to_client tu s0 None) (\<lambda>r.
            seq (tu_sem_post tu) (\<lambda>_.
            ret (if r \<noteq> 0 then - 1 else 0))))))"

text \<open>
  \<open>tu_chat\<close>. The branch for a unit that is not connected returns at once; the
  statements after the \<open>if\<close> are never reached.
\<close>

definition tu_chat :: "addr option \<Rightarrow> string \<Rightarrow> int prog" where
  "tu_chat tu msg =
     (if tu = None then ret (- 1)
      else
        seq (tu_sem_wait tu) (\<lambda>_.
        seq (state_of tu) (\<lambda>s0.
          if s0 \<noteq> TU_CONNECTED then ret (- 1)
          else
            seq (peer_of tu) (\<lambda>p.
            seq (tu_sem_wait p) (\<lambda>_.
            seq (state_of tu) (\<lambda>s1.
            seq (send_to_client tu s1 None) (\<lambda>r1.
            seq (peer_of tu) (\<lambda>p1.
            seq (state_of p1) (\<lambda>s2.
            seq (send_to_client p1 s2 (Some msg)) (\<lambda>r2.
            seq (tu_sem_post tu) (\<lambda>_.
            seq (peer_of tu) (\<lambda>p2.
            seq (tu_sem_post p2) (\<lambda>_.
            ret (if r1 \<noteq> 0 \<or> r2 \<noteq> 0 then - 1 else 0))))))))))))))"

section \<open>The registry\<close>

definition pbx_deref :: "addr option \<Rightarrow> PBX prog" where
  "pbx_deref p = (\<lambda>w. case p of None \<Rightarrow> Fault
     | Some a \<Rightarrow> (case pbxs w a of None \<Rightarrow> Fault | Some x \<Rightarrow> Return x w))"

definition pbx_assign :: "addr option \<Rightarrow> (PBX \<Rightarrow> PBX) \<Rightarrow> unit prog" where
  "pbx_assign p f = (\<lambda>w. case p of None \<Rightarrow> Fault
     | Some a \<Rightarrow> (case pbxs w a of None \<Rightarrow> Fault
         | Some x \<Rightarrow> Return () (w\<lparr>pbxs := (pbxs w)(a \<mapsto> f x)\<rparr>)))"

text \<open>\<open>sem_wait\<close> and \<open>sem_post\<close> on \<open>pbx->pbx_mutex\<close> and on \<open>pbx->entries_mutex\<close>.\<close>

definition pbx_sem_wait :: "addr option \<Rightarrow> unit prog" where
  "pbx_sem_wait p = (\<lambda>w. case p of None \<Rightarrow> Fault
     | Some a \<Rightarrow> (case pbxs w a of None \<Rightarrow> Fault
         | Some x \<Rightarrow>
             if pbx_mutex x = 0 then Blocked w
             else Return () (w\<lparr>pbxs := (pbxs w)(a \<mapsto> x\<lparr>pbx_mutex := pbx_mutex x - 1\<rparr>),
                               sems := sems w @ [Wait (PbxMutex a)]\<rparr>)))"

definition pbx_sem_post :: "addr option \<Rightarrow> unit prog" where
  "pbx_sem_post p = (\<lambda>w. case p of None \<Rightarrow> Fault
     | Some a \<Rightarrow> (case pbxs w a of None \<Rightarrow> Fault
         | Some x \<Rightarrow>
             Return () (w\<lparr>pbxs := (pbxs w)(a \<mapsto> x\<lparr>pbx_mutex := pbx_mutex x + 1\<rparr>),
                          sems := sems w @ [Post (PbxMutex a)]\<rparr>)))"

definition entries_sem_wait :: "addr option \<Rightarrow> unit prog" where
  "entries_sem_wait p = (\<lambda>w. case p of None \<Rightarrow> Fault
     | Some a \<Rightarrow> (case pbxs w a of None \<Rightarrow> Fault
         | Some x \<Rightarrow>
             if entries_mutex x = 0 then Blocked w
             else Return () (w\<lparr>pbxs := (pbxs w)(a \<mapsto> x\<lparr>entries_mutex := entries_mutex x - 1\<rparr>),
                               sems := sems w @ [Wait (EntriesMutex a)]\<rparr>)))"

definition entries_sem_post :: "addr option \<Rightarrow> unit prog" where
  "entries_sem_post p = (\<lambda>w. case p of None \<Rightarrow> Fault
     | Some a \<Rightarrow> (case pbxs w a of None \<Rightarrow> Fault
         | Some x \<Rightarrow>
             Return () (w\<lparr>pbxs := (pbxs w)(a \<mapsto> x\<lparr>entries_mutex := entries_mutex x + 1\<rparr>),
                          sems := sems w @ [Post (EntriesMutex a)]\<rparr>)))"

text \<open>\<open>pbx->pbx_entries[i]\<close>, read and written; an index outside the table is a fault.\<close>

definition entry_at :: "addr option \<Rightarrow> int \<Rightarrow> addr option prog" where
  "entry_at p i =
     seq (pbx_deref p) (\<lambda>x.
       if i < 0 \<or> PBX_MAX_EXTENSIONS \<le> i then fault else ret (pbx_entries x (nat i)))"

definition entry_set :: "addr option \<Rightarrow> int \<Rightarrow> addr option \<Rightarrow> unit prog" where
  "entry_set p i v =
     (if i < 0 \<or> PBX_MAX_EXTENSIONS \<le> i then fault
      else pbx_assign p (\<lambda>x. x\<lparr>pbx_entries := (pbx_entries x)(nat i := v)\<rparr>))"

text \<open>\<open>pbx_init\<close>: both \<open>calloc\<close>s and both \<open>sem_init\<close>s are taken to succeed.\<close>

definition pbx_init :: "addr option prog" where
  "pbx_init = (\<lambda>w.
     Return (Some (brk w))
       (w\<lparr>pbxs := (pbxs w)(brk w \<mapsto>
              \<lparr>num_entries = 0, entries_mutex = 1, pbx_mutex = 1, pbx_entries = (\<lambda>_. None)\<rparr>),
          brk := brk w + 1\<rparr>))"

definition pbx_register :: "addr option \<Rightarrow> addr option \<Rightarrow> int \<Rightarrow> int prog" where
  "pbx_register pbx tu e =
     (if pbx = None then ret (- 1)
      else if e < 0 \<or> e > PBX_MAX_EXTENSIONS - 1 then ret (- 1)
      else if tu = None then ret (- 1)
      else
        seq (pbx_sem_wait pbx) (\<lambda>_.
        seq (entries_sem_wait pbx) (\<lambda>_.
        seq (entry_at pbx e) (\<lambda>x.
          if x \<noteq> None then
            seq (entries_sem_post pbx) (\<lambda>_.
            seq (pbx_sem_post pbx) (\<lambda>_. ret (- 1)))
          else
            seq (entry_set pbx e tu) (\<lambda>_.
            seq (tu_set_extension tu e) (\<lambda>_.
            seq (pbx_assign pbx (\<lambda>x. x\<lparr>num_entries := num_entries x + 1\<rparr>)) (\<lambda>_.
            seq (tu_ref tu) (\<lambda>_.
            seq (entries_sem_post pbx) (\<lambda>_.
            seq (pbx_sem_post pbx) (\<lambda>_. ret 0))))))))))"

definition pbx_unregister :: "addr option \<Rightarrow> addr option \<Rightarrow> int prog" where
  "pbx_unregister pbx tu =
     (if pbx = None then ret (- 1)
      else if tu = None then ret (- 1)
      else
        seq (pbx_sem_wait pbx) (\<lambda>_.
        seq (entries_sem_wait pbx) (\<lambda>_.
        seq (tu_extension tu) (\<lambda>e.
          if e = - 1 then
            seq (entries_sem_post pbx) (\<lambda>_.
            seq (pbx_sem_post pbx) (\<lambda>_. ret (- 1)))
          else
            seq (entry_at pbx e) (\<lambda>x.
              if x = None then
                seq (entries_sem_post pbx) (\<lambda>_.
                seq (pbx_sem_post pbx) (\<lambda>_. ret (- 1)))
              else
                seq (entry_set pbx e None) (\<lambda>_.
                seq (pbx_assign pbx (\<lambda>x. x\<lparr>num_entries := num_entries x - 1\<rparr>)) (\<lambda>_.
                seq (tu_unref tu) (\<lambda>_.
                seq (entries_sem_post pbx) (\<lambda>_.
                seq (pbx_sem_post pbx) (\<lambda>_. ret 0))))))))))"

text \<open>
  \<open>pbx_dial\<close>. The guard on \<open>ext\<close> only looks upwards; \<open>-1\<close> is the session's mark
  for "no extension", and the table is not read for it.
\<close>

definition pbx_dial :: "addr option \<Rightarrow> addr option \<Rightarrow> int \<Rightarrow> int prog" where
  "pbx_dial pbx tu e =
     (if pbx = None then ret (- 1)
      else if e > PBX_MAX_EXTENSIONS - 1 then ret (- 1)
      else if tu = None then ret (- 1)
      else
        seq (pbx_sem_wait pbx) (\<lambda>_.
        seq (if e \<noteq> - 1 then entry_at pbx e else ret None) (\<lambda>recipient.
        seq (tu_dial tu recipient) (\<lambda>r.
          if r \<noteq> 0 then seq (pbx_sem_post pbx) (\<lambda>_. ret (- 1))
          else seq (pbx_sem_post pbx) (\<lambda>_. ret 0)))))"

section \<open>The client session\<close>

text \<open>
  C strings live in a buffer; \<open>cstr buf i\<close> is the string that starts at offset \<open>i\<close>,
  up to its terminator.
\<close>

definition NUL :: char where
  "NUL = CHR 0x00"

definition CR :: char where
  "CR = CHR 0x0D"

definition cstr :: "string \<Rightarrow> nat \<Rightarrow> string" where
  "cstr buf i = takeWhile (\<lambda>c. c \<noteq> NUL) (drop i buf)"

text \<open>
  \<open>strtok\<close>, from the offset where the scan resumes: the offset of the token (or
  \<open>None\<close> for \<open>NULL\<close>), the buffer with the token's delimiter overwritten by the
  terminator, and the offset where the next call resumes.
\<close>

definition strtok :: "string \<Rightarrow> nat \<Rightarrow> string \<Rightarrow> nat option \<times> string \<times> nat" where
  "strtok buf pos delim =
     (let s = pos + length (takeWhile (\<lambda>c. c \<in> set delim) (drop pos buf)) in
      if length buf \<le> s \<or> buf ! s = NUL then (None, buf, s)
      else
        (let e = s + length (takeWhile (\<lambda>c. c \<noteq> NUL \<and> c \<notin> set delim) (drop s buf)) in
         if length buf \<le> e \<or> buf ! e = NUL then (Some s, buf, e)
         else (Some s, buf[e := NUL], Suc e)))"

definition isspace :: "char \<Rightarrow> bool" where
  "isspace c = (c \<in> set [CHR '' '', CHR 0x09, CHR 0x0A, CHR 0x0B, CHR 0x0C, CHR 0x0D])"

definition isdigit :: "char \<Rightarrow> bool" where
  "isdigit c = (c \<in> set ''0123456789'')"

definition digit_val :: "char \<Rightarrow> int" where
  "digit_val c = int (of_char c) - 48"

definition decimal :: "string \<Rightarrow> int" where
  "decimal ds = foldl (\<lambda>acc c. 10 * acc + digit_val c) 0 ds"

definition LONG_MAX :: int where
  "LONG_MAX = 2 ^ 63 - 1"

definition LONG_MIN :: int where
  "LONG_MIN = - (2 ^ 63)"

text \<open>
  \<open>strtol(s, &endpointer, 10)\<close> where \<open>long\<close> has 64 bits: the value, and the offset
  of \<open>endpointer\<close> from \<open>s\<close> (0 when no digits were found). White space is skipped, a
  sign is optional, and a value outside \<open>long\<close> is clamped.
\<close>

definition strtol :: "string \<Rightarrow> int \<times> nat" where
  "strtol s =
     (let ws = length (takeWhile isspace s);
          r = drop ws s;
          neg = (r \<noteq> [] \<and> hd r = CHR ''-'');
          sg = (if r \<noteq> [] \<and> (hd r = CHR ''-'' \<or> hd r = CHR ''+'') then 1 else 0);
          ds = takeWhile isdigit (drop sg r);
          v = (if neg then - decimal ds else decimal ds)
      in if ds = [] then (0, 0)
         else (max LONG_MIN (min LONG_MAX v), ws + sg + length ds))"

text \<open>The conversion of a \<open>long\<close> to an \<open>int\<close> of 32 bits, as an assignment does it.\<close>

definition int_of_long :: "int \<Rightarrow> int" where
  "int_of_long v = (v + 2 ^ 31) mod 2 ^ 32 - 2 ^ 31"

datatype TU_COMMAND = TU_PICKUP_CMD | TU_HANGUP_CMD | TU_DIAL_CMD | TU_CHAT_CMD

text \<open>
  Modelled from the spec: \<open>tu_command_names\<close> is declared in \<open>pbx.h\<close>, which is not
  among the sources; the names are the command keywords of the specification's wire
  protocol.
\<close>

fun tu_command_names :: "TU_COMMAND \<Rightarrow> string" where
  "tu_command_names TU_PICKUP_CMD = ''pickup''"
| "tu_command_names TU_HANGUP_CMD = ''hangup''"
| "tu_command_names TU_DIAL_CMD = ''dial''"
| "tu_command_names TU_CHAT_CMD = ''chat''"

text \<open>\<open>strncmp(a, b, n) == 0\<close> on strings without a terminator inside.\<close>

definition strncmp_eq :: "string \<Rightarrow> string \<Rightarrow> nat \<Rightarrow> bool" where
  "strncmp_eq a b n = (take n a = take n b)"

text \<open>
  One turn of the loop of \<open>pbx_client_service\<close>, from the \<open>read\<close> to the end of the
  dial branch. \<open>input\<close> is what \<open>read\<close> returned: the bytes of one read, or \<open>[]\<close>
  for the end of the stream or an error. A turn ends the loop, goes on to the next
  read, or passes the dial test and reaches the chat test, where this model stops.
\<close>

datatype step = Continue | Break | Past_dial

definition service_step :: "addr option \<Rightarrow> addr option \<Rightarrow> string \<Rightarrow> step prog" where
  "service_step pbx teleunit input =
     (if input = [] then seq (tu_hangup teleunit) (\<lambda>_. ret Break)
      else
        (case strtok (input @ [NUL]) 0 '' '' of
           (None, _, _) \<Rightarrow> ret Continue
         | (Some command, buffer, saved) \<Rightarrow>
             (let command_len = int (length (cstr buffer command)) in
              if command_len - 2 = int (length (tu_command_names TU_PICKUP_CMD)) \<and>
                 strncmp_eq (cstr buffer command) (tu_command_names TU_PICKUP_CMD)
                   (length (tu_command_names TU_PICKUP_CMD))
              then seq (tu_pickup teleunit) (\<lambda>_. ret Continue)
              else if command_len - 2 = int (length (tu_command_names TU_HANGUP_CMD)) \<and>
                 strncmp_eq (cstr buffer command) (tu_command_names TU_HANGUP_CMD)
                   (length (tu_command_names TU_HANGUP_CMD))
              then seq (tu_hangup teleunit) (\<lambda>_. ret Continue)
              else if command_len = int (length (tu_command_names TU_DIAL_CMD)) \<and>
                 cstr buffer command = tu_command_names TU_DIAL_CMD
              then
                (case strtok buffer saved '' '' of
                   (None, _, _) \<Rightarrow> fault
                 | (Some x, buffer', _) \<Rightarrow>
                     if buffer' ! x = CR \<and> buffer' ! Suc x = LF then ret Continue
                     else
                       (let (v, n) = strtol (cstr buffer' x);
                            ext_num = int_of_long v
                        in seq (pbx_dial pbx teleunit
                                  (if ext_num = 0 \<and> buffer' ! (x + n - 1) \<noteq> CHR ''0''
                                   then - 1 else ext_num))
                             (\<lambda>_. ret Continue)))
              else ret Past_dial)))"

section \<open>The command line\<close>

text \<open>
  \<open>main\<close> up to the end of its argument checks: it leaves with \<open>EXIT_FAILURE\<close> after
  a diagnostic on standard error, or goes on with the port it will listen on.
\<close>

datatype diagnostic = Invalid_number_of_arguments nat | Invalid_flag string | Invalid_port string

datatype startup = Exit_failure diagnostic | Listen_on string

definition main_args :: "string list \<Rightarrow> startup" where
  "main_args argv =
     (let argc = length argv in
      if argc \<noteq> 1 \<and> argc \<noteq> 3 then Exit_failure (Invalid_number_of_arguments argc)
      else if argc = 3 then
        (if argv ! 1 \<noteq> ''-p'' then Exit_failure (Invalid_flag (argv ! 1))
         else
           (let (v, n) = strtol (argv ! 2);
                port_num = int_of_long v
            in if n \<noteq> length (argv ! 2) \<or> port_num < 1024
               then Exit_failure (Invalid_port (argv ! 2))
               else Listen_on (argv ! 2)))
      else Listen_on ''3000'')"

section \<open>Observations and scenarios\<close>

definition returned :: "'a result \<Rightarrow> 'a option" where
  "returned r = (case r of Return x _ \<Rightarrow> Some x | _ \<Rightarrow> None)"

definition after :: "'a result \<Rightarrow> (world \<Rightarrow> bool) \<Rightarrow> bool" where
  "after r P = (case r of Return _ w \<Rightarrow> P w | _ \<Rightarrow> False)"

definition state_at :: "world \<Rightarrow> addr \<Rightarrow> TU_STATE option" where
  "state_at w a = map_option state (tus w a)"

definition peer_at :: "world \<Rightarrow> addr \<Rightarrow> addr option option" where
  "peer_at w a = map_option peer (tus w a)"

definition refs_at :: "world \<Rightarrow> addr \<Rightarrow> int option" where
  "refs_at w a = map_option references (tus w a)"

definition mutex_at :: "world \<Rightarrow> addr \<Rightarrow> nat option" where
  "mutex_at w a = map_option tu_mutex (tus w a)"

definition state_after :: "'a result \<Rightarrow> addr \<Rightarrow> TU_STATE option" where
  "state_after r a = (case r of Return _ w \<Rightarrow> state_at w a | _ \<Rightarrow> None)"

text \<open>The semaphore operations a call adds to the record.\<close>

definition trace_of :: "'a prog \<Rightarrow> event list prog" where
  "trace_of m = (\<lambda>w. case m w of
       Return _ w' \<Rightarrow> Return (drop (length (sems w)) (sems w')) w'
     | Blocked w' \<Rightarrow> Blocked w'
     | Fault \<Rightarrow> Fault)"

text \<open>
  The server after its start and the arrival of clients on descriptors 4, 5 (and 6):
  \<open>pbx_init\<close>, then for each connection the \<open>tu_init\<close> and \<open>pbx_register\<close> with which
  \<open>pbx_client_service\<close> opens, the descriptor being the extension.
\<close>

definition two_phones :: "(addr option \<times> addr option \<times> addr option) prog" where
  "two_phones =
     seq pbx_init (\<lambda>p.
     seq (tu_init 4) (\<lambda>a.
     seq (pbx_register p a 4) (\<lambda>_.
     seq (tu_init 5) (\<lambda>b.
     seq (pbx_register p b 5) (\<lambda>_.
     ret (p, a, b))))))"

definition three_phones :: "(addr option \<times> addr option \<times> addr option \<times> addr option) prog" where
  "three_phones =
     seq two_phones (\<lambda>(p, a, b).
     seq (tu_init 6) (\<lambda>c.
     seq (pbx_register p c 6) (\<lambda>_.
     ret (p, a, b, c))))"

text \<open>The world before anything is allocated.\<close>

definition boot :: world where
  "boot = \<lparr>tus = (\<lambda>_. None), pbxs = (\<lambda>_. None), brk = 1, sent = [],
           write_fails = (\<lambda>_. False), sems = []\<rparr>"

text \<open>
  The worlds the scenarios pass through, written out. A registry at address 1 with the
  clients of descriptors 4 and 5 registered as units 2 and 3:
\<close>

definition phone :: "int \<Rightarrow> TU_STATE \<Rightarrow> addr option \<Rightarrow> int \<Rightarrow> TU" where
  "phone d s p r = \<lparr>tu_mutex = 1, state = s, references = r, ext = d, fd = d, peer = p\<rparr>"

definition exchange :: "TU \<Rightarrow> TU \<Rightarrow> (int \<times> string) list \<Rightarrow> event list \<Rightarrow> world" where
  "exchange ta tb out evs =
     \<lparr>tus = [2 \<mapsto> ta, 3 \<mapsto> tb],
      pbxs = [1 \<mapsto> \<lparr>num_entries = 2, entries_mutex = 1, pbx_mutex = 1,
                     pbx_entries = (\<lambda>_. None)(4 := Some 2, 5 := Some 3)\<rparr>],
      brk = 4, sent = out, write_fails = (\<lambda>_. False), sems = evs\<rparr>"

definition idle_sent :: "(int \<times> string) list" where
  "idle_sent = [(4, ''ON HOOK 4'' @ [LF]), (5, ''ON HOOK 5'' @ [LF])]"

definition idle_sems :: "event list" where
  "idle_sems =
     [Wait (PbxMutex 1), Wait (EntriesMutex 1), Wait (TuMutex 2),
      Post (TuMutex 2), Post (EntriesMutex 1), Post (PbxMutex 1),
      Wait (PbxMutex 1), Wait (EntriesMutex 1), Wait (TuMutex 3),
      Post (TuMutex 3), Post (EntriesMutex 1), Post (PbxMutex 1)]"

text \<open>Both units on hook, as \<open>two_phones\<close> leaves them.\<close>

definition idle_world :: world where
  "idle_world =
     exchange (phone 4 TU_ON_HOOK None 1) (phone 5 TU_ON_HOOK None 1) idle_sent idle_sems"

text \<open>Unit 2 has picked up.\<close>

definition dial_tone_world :: world where
  "dial_tone_world =
     exchange (phone 4 TU_DIAL_TONE None 1) (phone 5 TU_ON_HOOK None 1)
       (idle_sent @ [(4, ''DIAL TONE'' @ [LF])])
       (idle_sems @ [Wait (TuMutex 2), Post (TuMutex 2)])"

text \<open>Unit 2 has dialled extension 5: it hears the ring back, unit 3 rings.\<close>

definition ringing_world :: world where
  "ringing_world =
     exchange (phone 4 TU_RING_BACK (Some 3) 2) (phone 5 TU_RINGING (Some 2) 2)
       (idle_sent @
          [(4, ''DIAL TONE'' @ [LF]), (4, ''RING BACK'' @ [LF]), (5, ''RINGING'' @ [LF])])
       (idle_sems @
          [Wait (TuMutex 2), Post (TuMutex 2), Wait (PbxMutex 1), Wait (TuMutex 2),
           Post (TuMutex 2), Wait (TuMutex 2), Wait (TuMutex 3), Post (TuMutex 3),
           Post (TuMutex 2), Post (PbxMutex 1)])"

text \<open>A registry at address 1 and a unit at address 2 that is not registered yet.\<close>

definition arrival_world :: world where
  "arrival_world =
     \<lparr>tus = [2 \<mapsto> \<lparr>tu_mutex = 1, state = TU_ON_HOOK, references = 0, ext = - 1, fd = 4,
                    peer = None\<rparr>],
      pbxs = [1 \<mapsto> \<lparr>num_entries = 0, entries_mutex = 1, pbx_mutex = 1,
                     pbx_entries = (\<lambda>_. None)\<rparr>],
      brk = 3, sent = [], write_fails = (\<lambda>_. False), sems = []\<rparr>"

section \<open>What the specification asks of a world and of a record of semaphore operations\<close>

text \<open>
  The specification's invariants on one unit: its peer is set exactly in the states
  of a call, and its peer's peer is the unit itself. A world is quiescent for a unit
  when nobody holds the unit's semaphore.
\<close>

definition peer_iff_state :: "world \<Rightarrow> addr \<Rightarrow> bool" where
  "peer_iff_state w a =
     (case tus w a of None \<Rightarrow> True
      | Some t \<Rightarrow> (peer t \<noteq> None) = (state t \<in> {TU_RINGING, TU_RING_BACK, TU_CONNECTED}))"

definition peer_symmetric :: "world \<Rightarrow> addr \<Rightarrow> bool" where
  "peer_symmetric w a =
     (case tus w a of None \<Rightarrow> True
      | Some t \<Rightarrow>
          (case peer t of None \<Rightarrow> True
           | Some b \<Rightarrow> (case tus w b of None \<Rightarrow> False | Some u \<Rightarrow> peer u = Some a)))"

definition quiescent :: "world \<Rightarrow> addr \<Rightarrow> bool" where
  "quiescent w a = (mutex_at w a = Some 1)"

text \<open>
  The specification's lock order, read off a record of semaphore operations, given
  the locks held when the record starts: a unit's lock is taken only above every
  unit's lock already held (\<open>tu_order_ok\<close>), and only while no lock of the registry
  is held (\<open>registry_leaf_ok\<close>).
\<close>

definition is_tu_lock :: "lock \<Rightarrow> bool" where
  "is_tu_lock l = (case l of TuMutex _ \<Rightarrow> True | _ \<Rightarrow> False)"

definition below :: "lock \<Rightarrow> lock \<Rightarrow> bool" where
  "below h l = (case (h, l) of (TuMutex b, TuMutex a) \<Rightarrow> b < a | _ \<Rightarrow> True)"

fun tu_order_ok :: "lock list \<Rightarrow> event list \<Rightarrow> bool" where
  "tu_order_ok held [] = True"
| "tu_order_ok held (Wait l # es) = (list_all (\<lambda>h. below h l) held \<and> tu_order_ok (l # held) es)"
| "tu_order_ok held (Post l # es) = tu_order_ok (remove1 l held) es"

fun registry_leaf_ok :: "lock list \<Rightarrow> event list \<Rightarrow> bool" where
  "registry_leaf_ok held [] = True"
| "registry_leaf_ok held (Wait l # es) =
     ((if is_tu_lock l then list_all is_tu_lock held else True) \<and> registry_leaf_ok (l # held) es)"
| "registry_leaf_ok held (Post l # es) = registry_leaf_ok (remove1 l held) es"

text \<open>
  An argument of \<open>dial\<close> that starts no decimal number: after white space and one
  optional sign there is no digit. These are the arguments of which \<open>strtol\<close>
  converts nothing.
\<close>

definition non_numeric :: "string \<Rightarrow> bool" where
  "non_numeric s =
     (let r = dropWhile isspace s;
          r' = (if r \<noteq> [] \<and> (hd r = CHR ''-'' \<or> hd r = CHR ''+'') then tl r else r)
      in r' = [] \<or> \<not> isdigit (hd r'))"

section \<open>Properties\<close>

lemmas prims = ret_def fault_def seq_def deref_def assign_def peer_of_def state_of_def
  tu_sem_wait_def tu_sem_post_def ptr_less_def sys_write_def send_to_client_def
  tu_init_def tu_ref_def release_def tu_unref_def BUFFER_def

lemmas tu_ops = tu_dial_def tu_dial_pair_def tu_pickup_def tu_hangup_def tu_chat_def
  tu_set_extension_def tu_extension_def PBX_MAX_EXTENSIONS_def

lemmas pbx_ops = pbx_deref_def pbx_assign_def pbx_sem_wait_def pbx_sem_post_def
  entries_sem_wait_def entries_sem_post_def entry_at_def entry_set_def pbx_init_def
  pbx_register_def pbx_unregister_def pbx_dial_def

lemmas worlds = boot_def idle_world_def dial_tone_world_def ringing_world_def arrival_world_def
  exchange_def phone_def idle_sent_def idle_sems_def

lemmas observers = returned_def after_def state_at_def peer_at_def refs_at_def mutex_at_def
  state_after_def trace_of_def

subsection \<open>The written-out worlds are reached\<close>

lemma idle_world_reached: "two_phones boot = Return (Some 1, Some 2, Some 3) idle_world"
  by (simp add: two_phones_def worlds prims tu_ops pbx_ops show_int_def show_nat.simps fun_eq_iff)

lemma dial_tone_world_reached: "tu_pickup (Some 2) idle_world = Return 0 dial_tone_world"
  by (simp add: worlds prims tu_ops fun_eq_iff)

lemma ringing_world_reached:
  "pbx_dial (Some 1) (Some 2) 5 dial_tone_world = Return 0 ringing_world"
  by (simp add: worlds prims tu_ops pbx_ops fun_eq_iff)

lemma arrival_world_reached:
  "seq pbx_init (\<lambda>p. seq (tu_init 4) (\<lambda>a. ret (p, a))) boot = Return (Some 1, Some 2) arrival_world"
  by (simp add: worlds prims pbx_ops fun_eq_iff)

subsection \<open>The length of a notification\<close>

lemma show_nat_length: "length (show_nat n) \<le> Suc n"
proof (induction n rule: show_nat.induct)
  case (1 n)
  show ?case
  proof (cases "n < 10")
    case True
    then show ?thesis by (subst show_nat.simps) simp
  next
    case False
    with 1 have "length (show_nat (n div 10)) \<le> Suc (n div 10)" by simp
    moreover from False have "n div 10 < n" by simp
    ultimately show ?thesis using False by (subst show_nat.simps) simp
  qed
qed

lemma show_int_length:
  assumes "- 1 \<le> i" and "i < PBX_MAX_EXTENSIONS"
  shows "length (show_int i) < 2000"
proof (cases "i < 0")
  case True
  with assms have "i = - 1" by simp
  then show ?thesis by (simp add: show_int_def show_nat.simps)
next
  case False
  have "length (show_nat (nat i)) \<le> Suc (nat i)" by (rule show_nat_length)
  with False assms show ?thesis by (simp add: show_int_def PBX_MAX_EXTENSIONS_def)
qed

subsection \<open>Two pickups in a row\<close>

text \<open>
  C7. A unit that is on hook, whose semaphore is free and whose descriptor takes the
  writes, is picked up twice: the first pickup moves it to \<open>TU_DIAL_TONE\<close> and sends
  \<open>DIAL TONE\<close>; the second changes no unit and sends \<open>DIAL TONE\<close> again; so two lines
  are sent, both return 0, and the unit is left in \<open>TU_DIAL_TONE\<close>.
\<close>

theorem pickup_twice:
  assumes "tus w a = Some t" and "state t = TU_ON_HOOK" and "0 < tu_mutex t"
    and "0 \<le> fd t" and "\<not> write_fails w (fd t)"
  shows "let w1 = w\<lparr>tus := (tus w)(a \<mapsto> t\<lparr>state := TU_DIAL_TONE\<rparr>),
                     sent := sent w @ [(fd t, ''DIAL TONE'' @ [LF])],
                     sems := sems w @ [Wait (TuMutex a), Post (TuMutex a)]\<rparr>;
             w2 = w1\<lparr>sent := sent w @ [(fd t, ''DIAL TONE'' @ [LF]), (fd t, ''DIAL TONE'' @ [LF])],
                     sems := sems w1 @ [Wait (TuMutex a), Post (TuMutex a)]\<rparr>
         in tu_pickup (Some a) w = Return 0 w1 \<and> tu_pickup (Some a) w1 = Return 0 w2"
  using assms by (simp add: Let_def tu_pickup_def prims)

theorem pickup_twice_witness:
  "state_at idle_world 2 = Some TU_ON_HOOK \<and>
   after (tu_pickup (Some 2) idle_world) (\<lambda>w1.
     state_at w1 2 = Some TU_DIAL_TONE \<and>
     after (tu_pickup (Some 2) w1) (\<lambda>w2.
       tus w2 = tus w1 \<and>
       sent w2 = sent idle_world @ [(4, ''DIAL TONE'' @ [LF]), (4, ''DIAL TONE'' @ [LF])]))"
proof -
  have "tus idle_world 2 = Some (phone 4 TU_ON_HOOK None 1)"
    and "state (phone 4 TU_ON_HOOK None 1) = TU_ON_HOOK"
    and "0 < tu_mutex (phone 4 TU_ON_HOOK None 1)"
    and "0 \<le> fd (phone 4 TU_ON_HOOK None 1)"
    and "\<not> write_fails idle_world (fd (phone 4 TU_ON_HOOK None 1))"
    by (simp_all add: worlds)
  from pickup_twice [OF this] show ?thesis
    by (simp add: Let_def observers worlds)
qed

subsection \<open>Hanging up a ringing unit\<close>

text \<open>
  C1, as the code has it. A ringing unit whose caller hears the ring back hangs up:
  the unit goes on hook and the caller goes to \<open>TU_DIAL_TONE\<close> (the source's comment
  on \<open>tu_hangup\<close> says so, for a unit that is connected or ringing); the unit's client
  is sent \<open>ON HOOK\<close> with its extension, the caller's client \<open>DIAL TONE\<close>; both
  reference counts drop by one and both peers are cleared. The counts are not 1
  beforehand (a count that reaches 0 frees the unit under the call).
\<close>

theorem hangup_ringing:
  assumes "tus w a = Some t" and "tus w b = Some u" and "a \<noteq> b"
    and "state t = TU_RINGING" and "peer t = Some b" and "state u = TU_RING_BACK"
    and "0 < tu_mutex t" and "0 < tu_mutex u"
    and "references t \<noteq> 1" and "references u \<noteq> 1"
    and "0 \<le> fd t" and "0 \<le> fd u"
    and "\<not> write_fails w (fd t)" and "\<not> write_fails w (fd u)"
    and "- 1 \<le> ext t" and "ext t < PBX_MAX_EXTENSIONS"
  shows "tu_hangup (Some a) w =
     Return 0
       (w\<lparr>tus := (tus w)
            (a \<mapsto> t\<lparr>state := TU_ON_HOOK, references := references t - 1, peer := None\<rparr>,
             b \<mapsto> u\<lparr>state := TU_DIAL_TONE, references := references u - 1, peer := None\<rparr>),
          sent := sent w @
            [(fd t, ''ON HOOK '' @ show_int (ext t) @ [LF]), (fd u, ''DIAL TONE'' @ [LF])],
          sems := sems w @
            [Wait (TuMutex a), Wait (TuMutex b), Post (TuMutex b), Post (TuMutex a)]\<rparr>)"
proof -
  have "length (show_int (ext t)) < 2000"
    using assms(15,16) by (rule show_int_length)
  then have "\<not> 8192 \<le> Suc (Suc (Suc (Suc (Suc (Suc (Suc (Suc (Suc (length (show_int (ext t)))))))))))"
    by simp
  with assms show ?thesis
    by (simp add: tu_hangup_def prims fun_upd_twist)
qed

theorem hangup_ringing_witness:
  "state_at ringing_world 3 = Some TU_RINGING \<and> state_at ringing_world 2 = Some TU_RING_BACK \<and>
   returned (tu_hangup (Some 3) ringing_world) = Some 0 \<and>
   after (tu_hangup (Some 3) ringing_world) (\<lambda>w.
     state_at w 3 = Some TU_ON_HOOK \<and> state_at w 2 = Some TU_DIAL_TONE \<and>
     sent w = sent ringing_world @ [(5, ''ON HOOK 5'' @ [LF]), (4, ''DIAL TONE'' @ [LF])])"
proof -
  have "tus ringing_world 3 = Some (phone 5 TU_RINGING (Some 2) 2)"
    and "tus ringing_world 2 = Some (phone 4 TU_RING_BACK (Some 3) 2)"
    and "(3::nat) \<noteq> 2"
    and "state (phone 5 TU_RINGING (Some 2) 2) = TU_RINGING"
    and "peer (phone 5 TU_RINGING (Some 2) 2) = Some 2"
    and "state (phone 4 TU_RING_BACK (Some 3) 2) = TU_RING_BACK"
    and "0 < tu_mutex (phone 5 TU_RINGING (Some 2) 2)"
    and "0 < tu_mutex (phone 4 TU_RING_BACK (Some 3) 2)"
    and "references (phone 5 TU_RINGING (Some 2) 2) \<noteq> 1"
    and "references (phone 4 TU_RING_BACK (Some 3) 2) \<noteq> 1"
    and "0 \<le> fd (phone 5 TU_RINGING (Some 2) 2)"
    and "0 \<le> fd (phone 4 TU_RING_BACK (Some 3) 2)"
    and "\<not> write_fails ringing_world (fd (phone 5 TU_RINGING (Some 2) 2))"
    and "\<not> write_fails ringing_world (fd (phone 4 TU_RING_BACK (Some 3) 2))"
    and "- 1 \<le> ext (phone 5 TU_RINGING (Some 2) 2)"
    and "ext (phone 5 TU_RINGING (Some 2) 2) < PBX_MAX_EXTENSIONS"
    by (simp_all add: worlds PBX_MAX_EXTENSIONS_def)
  from hangup_ringing [OF this] show ?thesis
    by (simp add: observers worlds show_int_def show_nat.simps)
qed

text \<open>
  The claim asks for the caller to go on hook. In the world where unit 3 rings and
  unit 2 hears the ring back, unit 3 hangs up and unit 2 is left in \<open>TU_DIAL_TONE\<close>.
\<close>

theorem hangup_ringing_counterexample:
  "state_at ringing_world 3 = Some TU_RINGING \<and>
   peer_at ringing_world 3 = Some (Some 2) \<and>
   state_at ringing_world 2 = Some TU_RING_BACK \<and>
   returned (tu_hangup (Some 3) ringing_world) = Some 0 \<and>
   state_after (tu_hangup (Some 3) ringing_world) 3 = Some TU_ON_HOOK \<and>
   state_after (tu_hangup (Some 3) ringing_world) 2 = Some TU_DIAL_TONE \<and>
   state_after (tu_hangup (Some 3) ringing_world) 2 \<noteq> Some TU_ON_HOOK"
  by (simp add: observers worlds tu_hangup_def prims show_int_def show_nat.simps)

subsection \<open>Hanging up while the other side rings\<close>

text \<open>
  C2, what the code does. The caller hangs up while its peer rings (the branch of
  \<open>tu_hangup\<close> for \<open>TU_RING_BACK\<close>): both units go on hook and both clients are told,
  and nothing else of either unit changes. The reference counts are not decremented
  and the two peer fields keep pointing at each other, when the semaphores are
  released; the claim asks for both, and the branch for a connected or ringing unit
  does both.
\<close>

theorem hangup_ring_back:
  assumes "tus w a = Some t" and "tus w b = Some u" and "a \<noteq> b"
    and "state t = TU_RING_BACK" and "peer t = Some b"
    and "0 < tu_mutex t" and "0 < tu_mutex u"
    and "0 \<le> fd t" and "0 \<le> fd u"
    and "\<not> write_fails w (fd t)" and "\<not> write_fails w (fd u)"
    and "- 1 \<le> ext t" and "ext t < PBX_MAX_EXTENSIONS"
    and "- 1 \<le> ext u" and "ext u < PBX_MAX_EXTENSIONS"
  shows "tu_hangup (Some a) w =
     Return 0
       (w\<lparr>tus := (tus w)(a \<mapsto> t\<lparr>state := TU_ON_HOOK\<rparr>, b \<mapsto> u\<lparr>state := TU_ON_HOOK\<rparr>),
          sent := sent w @
            [(fd t, ''ON HOOK '' @ show_int (ext t) @ [LF]),
             (fd u, ''ON HOOK '' @ show_int (ext u) @ [LF])],
          sems := sems w @
            [Wait (TuMutex a), Wait (TuMutex b), Post (TuMutex a), Post (TuMutex b)]\<rparr>)"
proof -
  have "length (show_int (ext t)) < 2000" and "length (show_int (ext u)) < 2000"
    using assms(12-15) by (simp_all add: show_int_length)
  then have "\<not> 8192 \<le> Suc (Suc (Suc (Suc (Suc (Suc (Suc (Suc (Suc (length (show_int (ext t)))))))))))"
    and "\<not> 8192 \<le> Suc (Suc (Suc (Suc (Suc (Suc (Suc (Suc (Suc (length (show_int (ext u)))))))))))"
    by simp_all
  with assms show ?thesis
    by (simp add: tu_hangup_def prims fun_upd_twist)
qed

theorem hangup_ring_back_witness:
  "state_at ringing_world 2 = Some TU_RING_BACK \<and> peer_at ringing_world 2 = Some (Some 3) \<and>
   refs_at ringing_world 2 = Some 2 \<and> refs_at ringing_world 3 = Some 2 \<and>
   after (tu_hangup (Some 2) ringing_world) (\<lambda>w.
     state_at w 2 = Some TU_ON_HOOK \<and> state_at w 3 = Some TU_ON_HOOK \<and>
     refs_at w 2 = Some 2 \<and> refs_at w 3 = Some 2 \<and>
     peer_at w 2 = Some (Some 3) \<and> peer_at w 3 = Some (Some 2) \<and>
     mutex_at w 2 = Some 1 \<and> mutex_at w 3 = Some 1)"
proof -
  have "tus ringing_world 2 = Some (phone 4 TU_RING_BACK (Some 3) 2)"
    and "tus ringing_world 3 = Some (phone 5 TU_RINGING (Some 2) 2)"
    and "(2::nat) \<noteq> 3"
    and "state (phone 4 TU_RING_BACK (Some 3) 2) = TU_RING_BACK"
    and "peer (phone 4 TU_RING_BACK (Some 3) 2) = Some 3"
    and "0 < tu_mutex (phone 4 TU_RING_BACK (Some 3) 2)"
    and "0 < tu_mutex (phone 5 TU_RINGING (Some 2) 2)"
    and "0 \<le> fd (phone 4 TU_RING_BACK (Some 3) 2)"
    and "0 \<le> fd (phone 5 TU_RINGING (Some 2) 2)"
    and "\<not> write_fails ringing_world (fd (phone 4 TU_RING_BACK (Some 3) 2))"
    and "\<not> write_fails ringing_world (fd (phone 5 TU_RINGING (Some 2) 2))"
    and "- 1 \<le> ext (phone 4 TU_RING_BACK (Some 3) 2)"
    and "ext (phone 4 TU_RING_BACK (Some 3) 2) < PBX_MAX_EXTENSIONS"
    and "- 1 \<le> ext (phone 5 TU_RINGING (Some 2) 2)"
    and "ext (phone 5 TU_RINGING (Some 2) 2) < PBX_MAX_EXTENSIONS"
    by (simp_all add: worlds PBX_MAX_EXTENSIONS_def)
  from hangup_ring_back [OF this] show ?thesis
    by (simp add: observers worlds)
qed

subsection \<open>The invariant on peers\<close>

text \<open>
  C3, at the input where the code breaks it. Units 2 and 3 are registered; unit 2
  picks up, dials unit 3 and hangs up. Before the hangup no semaphore is held, each
  unit has a peer exactly in a state of a call and the peers point at each other.
  After it no semaphore is held either, both units are on hook, and both still have
  a peer: the first part of the invariant fails for both.
\<close>

theorem peer_invariant_broken:
  "quiescent ringing_world 2 \<and> quiescent ringing_world 3 \<and>
   peer_iff_state ringing_world 2 \<and> peer_iff_state ringing_world 3 \<and>
   peer_symmetric ringing_world 2 \<and> peer_symmetric ringing_world 3 \<and>
   after (tu_hangup (Some 2) ringing_world) (\<lambda>w.
     quiescent w 2 \<and> quiescent w 3 \<and>
     state_at w 2 = Some TU_ON_HOOK \<and> state_at w 3 = Some TU_ON_HOOK \<and>
     peer_at w 2 = Some (Some 3) \<and> peer_at w 3 = Some (Some 2) \<and>
     \<not> peer_iff_state w 2 \<and> \<not> peer_iff_state w 3)"
  by (simp add: observers quiescent_def peer_iff_state_def peer_symmetric_def worlds
      tu_hangup_def prims show_int_def show_nat.simps)

theorem peer_invariant_broken_witness:
  "after (tu_hangup (Some 2) ringing_world) (\<lambda>w. quiescent w 2 \<and> \<not> peer_iff_state w 2)"
  using peer_invariant_broken by (simp add: after_def split: result.splits)

subsection \<open>Dialling a unit that has a peer\<close>

text \<open>
  The test \<open>tu_dial\<close> makes once it holds both semaphores: the originating unit
  gets the busy signal exactly when it has a peer itself or the target is off hook.
  The peer of the target is not looked at.
\<close>

lemma tu_dial_decision:
  assumes "tus w a = Some t" and "tus w b = Some u" and "a \<noteq> b"
    and "state t = TU_DIAL_TONE" and "0 < tu_mutex t" and "0 < tu_mutex u"
  shows "state_after (tu_dial (Some a) (Some b) w) a =
     Some (if peer t \<noteq> None \<or> state u \<noteq> TU_ON_HOOK then TU_BUSY_SIGNAL else TU_RING_BACK)"
  using assms
  by (auto simp add: tu_dial_def tu_dial_pair_def prims observers)

text \<open>
  C4, at the input where the code departs from it. Three units are registered.
  Unit 2 picks up, dials unit 3 and hangs up, which leaves unit 3 on hook with unit 2
  as its peer (see C2). Unit 4 picks up and dials unit 3. The target has a peer, so
  the claim, like the source's comment on \<open>tu_dial\<close>, sends unit 4 to
  \<open>TU_BUSY_SIGNAL\<close>. The code tests the peer of the originating unit instead: unit 4
  goes to \<open>TU_RING_BACK\<close>, unit 3 rings with unit 4 as its peer, and unit 2 still has
  unit 3 as its peer.
\<close>

theorem dial_target_with_peer:
  "after (seq three_phones (\<lambda>(p, a, b, c).
            seq (tu_pickup a) (\<lambda>_.
            seq (pbx_dial p a 5) (\<lambda>_.
            seq (tu_hangup a) (\<lambda>_. tu_pickup c)))) boot) (\<lambda>w.
     state_at w 4 = Some TU_DIAL_TONE \<and> peer_at w 4 = Some None \<and>
     state_at w 3 = Some TU_ON_HOOK \<and> peer_at w 3 = Some (Some 2) \<and>
     quiescent w 3 \<and> quiescent w 4 \<and>
     after (tu_dial (Some 4) (Some 3) w) (\<lambda>w'.
       state_at w' 4 = Some TU_RING_BACK \<and> state_at w' 3 = Some TU_RINGING \<and>
       peer_at w' 4 = Some (Some 3) \<and> peer_at w' 3 = Some (Some 4) \<and>
       peer_at w' 2 = Some (Some 3) \<and> \<not> peer_symmetric w' 2))"
  by (simp add: observers quiescent_def peer_symmetric_def three_phones_def two_phones_def
      boot_def prims tu_ops pbx_ops show_int_def show_nat.simps)

theorem dial_target_with_peer_witness:
  "after (seq three_phones (\<lambda>(p, a, b, c).
            seq (tu_pickup a) (\<lambda>_.
            seq (pbx_dial p a 5) (\<lambda>_.
            seq (tu_hangup a) (\<lambda>_. tu_pickup c)))) boot) (\<lambda>w.
     peer_at w 3 = Some (Some 2) \<and>
     after (tu_dial (Some 4) (Some 3) w) (\<lambda>w'. state_at w' 4 = Some TU_RING_BACK))"
  using dial_target_with_peer by (auto simp add: after_def split: result.splits)

subsection \<open>A chat on a unit that is not connected\<close>

text \<open>
  C6, what the code does. For a unit that is not connected and whose semaphore is
  free, \<open>tu_chat\<close> returns -1 and writes to no client, as the claim says; but it
  returns from inside the critical section: the world it leaves differs from the one
  it found in that the unit's semaphore has been taken, and no \<open>sem_post\<close> follows
  the \<open>sem_wait\<close>. The claim asks for the release on every exit path.
\<close>

theorem chat_not_connected:
  assumes "tus w a = Some t" and "state t \<noteq> TU_CONNECTED" and "0 < tu_mutex t"
  shows "tu_chat (Some a) msg w =
     Return (- 1)
       (w\<lparr>tus := (tus w)(a \<mapsto> t\<lparr>tu_mutex := tu_mutex t - 1\<rparr>),
          sems := sems w @ [Wait (TuMutex a)]\<rparr>)"
  using assms by (simp add: tu_chat_def prims)

theorem chat_not_connected_witness:
  "state_at idle_world 2 = Some TU_ON_HOOK \<and> quiescent idle_world 2 \<and>
   returned (tu_chat (Some 2) ''hi'' idle_world) = Some (- 1) \<and>
   after (tu_chat (Some 2) ''hi'' idle_world) (\<lambda>w.
     sent w = sent idle_world \<and> mutex_at w 2 = Some 0 \<and> \<not> quiescent w 2 \<and>
     sems w = sems idle_world @ [Wait (TuMutex 2)] \<and>
     tu_hangup (Some 2) w = Blocked w)"
proof -
  have "tus idle_world 2 = Some (phone 4 TU_ON_HOOK None 1)"
    and "state (phone 4 TU_ON_HOOK None 1) \<noteq> TU_CONNECTED"
    and "0 < tu_mutex (phone 4 TU_ON_HOOK None 1)"
    by (simp_all add: worlds)
  from chat_not_connected [OF this] show ?thesis
    by (simp add: observers quiescent_def worlds tu_hangup_def prims)
qed

subsection \<open>Dialling an extension\<close>

text \<open>
  C5, as the code has it. \<open>pbx_dial\<close> has a guard of its own for an extension above
  the table: it returns -1 at once, and the world is the one it found (no semaphore
  taken, no call of \<open>tu_dial\<close>, no state changed, nothing sent). For the extension -1
  and for an extension inside the table it takes the registry's semaphore, resolves
  the extension (-1 and a vacant cell to \<open>NULL\<close>, an occupied cell to its unit) and
  hands over to \<open>tu_dial\<close>; so a caller in \<open>TU_DIAL_TONE\<close> that dials -1 or a vacant
  extension goes to \<open>TU_ERROR\<close> and is sent \<open>ERROR\<close>.
\<close>

theorem pbx_dial_resolution:
  assumes "pbxs w q = Some x" and "0 < pbx_mutex x"
    and "tus w a = Some t" and "state t = TU_DIAL_TONE" and "0 < tu_mutex t"
    and "0 \<le> fd t" and "\<not> write_fails w (fd t)"
  shows "(PBX_MAX_EXTENSIONS - 1 < e \<longrightarrow> pbx_dial (Some q) (Some a) e w = Return (- 1) w) \<and>
    (e = - 1 \<or> (0 \<le> e \<and> e \<le> PBX_MAX_EXTENSIONS - 1 \<and> pbx_entries x (nat e) = None) \<longrightarrow>
       pbx_dial (Some q) (Some a) e w =
         Return 0
           (w\<lparr>tus := (tus w)(a \<mapsto> t\<lparr>state := TU_ERROR\<rparr>),
              sent := sent w @ [(fd t, ''ERROR'' @ [LF])],
              sems := sems w @
                [Wait (PbxMutex q), Wait (TuMutex a), Post (TuMutex a), Post (PbxMutex q)]\<rparr>)) \<and>
    (- 1 \<le> e \<and> e \<le> PBX_MAX_EXTENSIONS - 1 \<longrightarrow>
       pbx_dial (Some q) (Some a) e w =
         seq (pbx_sem_wait (Some q)) (\<lambda>_.
         seq (tu_dial (Some a) (if e = - 1 then None else pbx_entries x (nat e))) (\<lambda>r.
         seq (pbx_sem_post (Some q)) (\<lambda>_. ret (if r \<noteq> 0 then - 1 else 0)))) w)"
proof (intro conjI impI)
  assume "PBX_MAX_EXTENSIONS - 1 < e"
  then show "pbx_dial (Some q) (Some a) e w = Return (- 1) w"
    by (simp add: pbx_dial_def ret_def)
next
  assume "e = - 1 \<or> (0 \<le> e \<and> e \<le> PBX_MAX_EXTENSIONS - 1 \<and> pbx_entries x (nat e) = None)"
  moreover have "(pbxs w)(q \<mapsto> x) = pbxs w"
    using assms(1) by (simp add: fun_upd_idem)
  ultimately show "pbx_dial (Some q) (Some a) e w =
         Return 0
           (w\<lparr>tus := (tus w)(a \<mapsto> t\<lparr>state := TU_ERROR\<rparr>),
              sent := sent w @ [(fd t, ''ERROR'' @ [LF])],
              sems := sems w @
                [Wait (PbxMutex q), Wait (TuMutex a), Post (TuMutex a), Post (PbxMutex q)]\<rparr>)"
    using assms
    by (auto simp add: pbx_dial_def tu_dial_def pbx_deref_def pbx_sem_wait_def pbx_sem_post_def
        entry_at_def PBX_MAX_EXTENSIONS_def prims)
next
  assume "- 1 \<le> e \<and> e \<le> PBX_MAX_EXTENSIONS - 1"
  with assms(1) show "pbx_dial (Some q) (Some a) e w =
         seq (pbx_sem_wait (Some q)) (\<lambda>_.
         seq (tu_dial (Some a) (if e = - 1 then None else pbx_entries x (nat e))) (\<lambda>r.
         seq (pbx_sem_post (Some q)) (\<lambda>_. ret (if r \<noteq> 0 then - 1 else 0)))) w"
    by (auto simp add: pbx_dial_def pbx_deref_def pbx_sem_wait_def pbx_sem_post_def
        entry_at_def PBX_MAX_EXTENSIONS_def ret_def seq_def fault_def split: result.splits)
qed

theorem pbx_dial_resolution_witness:
  "pbx_dial (Some 1) (Some 2) 1024 dial_tone_world = Return (- 1) dial_tone_world \<and>
   after (pbx_dial (Some 1) (Some 2) (- 1) dial_tone_world) (\<lambda>w.
     state_at w 2 = Some TU_ERROR \<and> sent w = sent dial_tone_world @ [(4, ''ERROR'' @ [LF])]) \<and>
   after (pbx_dial (Some 1) (Some 2) 7 dial_tone_world) (\<lambda>w.
     state_at w 2 = Some TU_ERROR \<and> sent w = sent dial_tone_world @ [(4, ''ERROR'' @ [LF])])"
proof -
  let ?x = "\<lparr>num_entries = 2, entries_mutex = 1, pbx_mutex = 1,
             pbx_entries = (\<lambda>_. None)(4 := Some 2, 5 := Some (3::nat))\<rparr>"
  have h: "pbxs dial_tone_world 1 = Some ?x" "0 < pbx_mutex ?x"
    "tus dial_tone_world 2 = Some (phone 4 TU_DIAL_TONE None 1)"
    "state (phone 4 TU_DIAL_TONE None 1) = TU_DIAL_TONE"
    "0 < tu_mutex (phone 4 TU_DIAL_TONE None 1)"
    "0 \<le> fd (phone 4 TU_DIAL_TONE None 1)"
    "\<not> write_fails dial_tone_world (fd (phone 4 TU_DIAL_TONE None 1))"
    by (simp_all add: worlds)
  from pbx_dial_resolution [OF h, of 1024] pbx_dial_resolution [OF h, of "- 1"]
    pbx_dial_resolution [OF h, of 7]
  show ?thesis
    by (simp add: observers worlds PBX_MAX_EXTENSIONS_def)
qed

text \<open>
  The claim sends every caller in \<open>TU_DIAL_TONE\<close> that dials an extension out of range
  to \<open>TU_ERROR\<close>, through \<open>tu_dial\<close>. Unit 2 is in \<open>TU_DIAL_TONE\<close> and dials 1024, the
  first extension above the table: the call returns -1 and leaves the world as it
  was, so the unit is still in \<open>TU_DIAL_TONE\<close>, nothing was sent and no semaphore
  was touched.
\<close>

theorem pbx_dial_out_of_range_counterexample:
  "state_at dial_tone_world 2 = Some TU_DIAL_TONE \<and>
   PBX_MAX_EXTENSIONS \<le> 1024 \<and>
   pbx_dial (Some 1) (Some 2) 1024 dial_tone_world = Return (- 1) dial_tone_world \<and>
   state_after (pbx_dial (Some 1) (Some 2) 1024 dial_tone_world) 2 = Some TU_DIAL_TONE \<and>
   state_after (pbx_dial (Some 1) (Some 2) 1024 dial_tone_world) 2 \<noteq> Some TU_ERROR"
  by (simp add: observers worlds pbx_dial_def PBX_MAX_EXTENSIONS_def ret_def)

subsection \<open>The order of the locks\<close>

text \<open>
  C9, as the code has it. \<open>tu_dial\<close> releases the originating unit's semaphore and
  takes the two semaphores in the order of the units' addresses, the lower first,
  whatever the outcome of the call. The registry's semaphores are no leaves:
  \<open>pbx_register\<close> holds both across \<open>tu_set_extension\<close>, which takes the unit's
  semaphore, and \<open>pbx_dial\<close> holds \<open>pbx_mutex\<close> across the whole of \<open>tu_dial\<close>.
\<close>

theorem lock_order_as_built:
  assumes "tus w a = Some t" and "tus w b = Some u" and "a \<noteq> b"
    and "state t = TU_DIAL_TONE" and "0 < tu_mutex t" and "0 < tu_mutex u"
    and "pbxs w q = Some x" and "0 < pbx_mutex x" and "0 < entries_mutex x"
    and "0 \<le> e" and "e < PBX_MAX_EXTENSIONS" and "pbx_entries x (nat e) = Some b"
    and "0 \<le> e'" and "e' < PBX_MAX_EXTENSIONS" and "pbx_entries x (nat e') = None"
  shows "(let tr = [Wait (TuMutex a), Post (TuMutex a), Wait (TuMutex (min a b)),
                    Wait (TuMutex (max a b)), Post (TuMutex b), Post (TuMutex a)]
          in returned (trace_of (tu_dial (Some a) (Some b)) w) = Some tr \<and>
             tu_order_ok [] tr) \<and>
         (let tr = [Wait (PbxMutex q), Wait (TuMutex a), Post (TuMutex a),
                    Wait (TuMutex (min a b)), Wait (TuMutex (max a b)), Post (TuMutex b),
                    Post (TuMutex a), Post (PbxMutex q)]
          in returned (trace_of (pbx_dial (Some q) (Some a) e) w) = Some tr \<and>
             \<not> registry_leaf_ok [] tr) \<and>
         (let tr = [Wait (PbxMutex q), Wait (EntriesMutex q), Wait (TuMutex a),
                    Post (TuMutex a), Post (EntriesMutex q), Post (PbxMutex q)]
          in returned (trace_of (pbx_register (Some q) (Some a) e') w) = Some tr \<and>
             \<not> registry_leaf_ok [] tr)"
proof -
  have dial: "returned (trace_of (tu_dial (Some a) (Some b)) w) =
      Some [Wait (TuMutex a), Post (TuMutex a), Wait (TuMutex (min a b)),
            Wait (TuMutex (max a b)), Post (TuMutex b), Post (TuMutex a)]"
    using assms(1-6)
    by (auto simp add: tu_dial_def tu_dial_pair_def prims observers min_def max_def)
  have order: "tu_order_ok [] [Wait (TuMutex a), Post (TuMutex a), Wait (TuMutex (min a b)),
            Wait (TuMutex (max a b)), Post (TuMutex b), Post (TuMutex a)]"
    using assms(3) by (auto simp add: below_def min_def max_def)
  have pdial: "returned (trace_of (pbx_dial (Some q) (Some a) e) w) =
      Some [Wait (PbxMutex q), Wait (TuMutex a), Post (TuMutex a),
            Wait (TuMutex (min a b)), Wait (TuMutex (max a b)), Post (TuMutex b),
            Post (TuMutex a), Post (PbxMutex q)]"
    using assms(1-12)
    by (auto simp add: pbx_dial_def pbx_deref_def pbx_sem_wait_def pbx_sem_post_def entry_at_def
        PBX_MAX_EXTENSIONS_def tu_dial_def tu_dial_pair_def prims observers min_def max_def)
  have "length (show_int e') < 2000"
    using assms(13,14) by (simp add: show_int_length)
  then have len: "\<not> 8192 \<le> Suc (Suc (Suc (Suc (Suc (Suc (Suc (Suc (Suc (length (show_int e'))))))))))"
    by simp
  have reg: "returned (trace_of (pbx_register (Some q) (Some a) e') w) =
      Some [Wait (PbxMutex q), Wait (EntriesMutex q), Wait (TuMutex a),
            Post (TuMutex a), Post (EntriesMutex q), Post (PbxMutex q)]"
    using assms(1,5,7-9,13-15) len
    by (auto simp add: pbx_register_def pbx_deref_def pbx_assign_def pbx_sem_wait_def
        pbx_sem_post_def entries_sem_wait_def entries_sem_post_def entry_at_def entry_set_def
        tu_set_extension_def PBX_MAX_EXTENSIONS_def prims observers)
  show ?thesis
    unfolding Let_def
    using dial order pdial reg by (simp add: is_tu_lock_def)
qed

theorem lock_order_as_built_witness:
  "returned (trace_of (tu_dial (Some 2) (Some 3)) dial_tone_world) =
     Some [Wait (TuMutex 2), Post (TuMutex 2), Wait (TuMutex 2), Wait (TuMutex 3),
           Post (TuMutex 3), Post (TuMutex 2)] \<and>
   returned (trace_of (pbx_dial (Some 1) (Some 2) 5) dial_tone_world) =
     Some [Wait (PbxMutex 1), Wait (TuMutex 2), Post (TuMutex 2), Wait (TuMutex 2),
           Wait (TuMutex 3), Post (TuMutex 3), Post (TuMutex 2), Post (PbxMutex 1)] \<and>
   returned (trace_of (pbx_register (Some 1) (Some 2) 7) dial_tone_world) =
     Some [Wait (PbxMutex 1), Wait (EntriesMutex 1), Wait (TuMutex 2), Post (TuMutex 2),
           Post (EntriesMutex 1), Post (PbxMutex 1)]"
proof -
  let ?x = "\<lparr>num_entries = 2, entries_mutex = 1, pbx_mutex = 1,
             pbx_entries = (\<lambda>_. None)(4 := Some 2, 5 := Some (3::nat))\<rparr>"
  have "tus dial_tone_world 2 = Some (phone 4 TU_DIAL_TONE None 1)"
    and "tus dial_tone_world 3 = Some (phone 5 TU_ON_HOOK None 1)"
    and "(2::nat) \<noteq> 3"
    and "state (phone 4 TU_DIAL_TONE None 1) = TU_DIAL_TONE"
    and "0 < tu_mutex (phone 4 TU_DIAL_TONE None 1)"
    and "0 < tu_mutex (phone 5 TU_ON_HOOK None 1)"
    and "pbxs dial_tone_world 1 = Some ?x" and "0 < pbx_mutex ?x" and "0 < entries_mutex ?x"
    and "(0::int) \<le> 5" and "5 < PBX_MAX_EXTENSIONS" and "pbx_entries ?x (nat 5) = Some 3"
    and "(0::int) \<le> 7" and "7 < PBX_MAX_EXTENSIONS" and "pbx_entries ?x (nat 7) = None"
    by (simp_all add: worlds PBX_MAX_EXTENSIONS_def)
  from lock_order_as_built [OF this] show ?thesis
    by (simp add: Let_def)
qed

text \<open>
  The claim asks for the lower unit first wherever two units are locked, and for no
  unit's lock under the registry's. Unit 3 rings and answers: \<open>tu_pickup\<close> takes its
  own semaphore and then that of its peer, unit 2. A unit is registered:
  \<open>pbx_register\<close> takes the unit's semaphore while it holds both of the registry's.
\<close>

theorem lock_order_counterexample:
  "returned (trace_of (tu_pickup (Some 3)) ringing_world) =
     Some [Wait (TuMutex 3), Wait (TuMutex 2), Post (TuMutex 3), Post (TuMutex 2)] \<and>
   \<not> tu_order_ok [] [Wait (TuMutex 3), Wait (TuMutex 2), Post (TuMutex 3), Post (TuMutex 2)] \<and>
   returned (trace_of (pbx_register (Some 1) (Some 2) 4) arrival_world) =
     Some [Wait (PbxMutex 1), Wait (EntriesMutex 1), Wait (TuMutex 2), Post (TuMutex 2),
           Post (EntriesMutex 1), Post (PbxMutex 1)] \<and>
   \<not> registry_leaf_ok []
       [Wait (PbxMutex 1), Wait (EntriesMutex 1), Wait (TuMutex 2), Post (TuMutex 2),
        Post (EntriesMutex 1), Post (PbxMutex 1)]"
  by (simp add: observers worlds below_def is_tu_lock_def tu_pickup_def tu_set_extension_def
      PBX_MAX_EXTENSIONS_def pbx_register_def pbx_deref_def pbx_assign_def pbx_sem_wait_def
      pbx_sem_post_def entries_sem_wait_def entries_sem_post_def entry_at_def entry_set_def
      prims show_int_def show_nat.simps)

subsection \<open>The argument of a dial command\<close>

lemma isspace_CR_LF: "isspace CR" "isspace LF" "\<not> isdigit CR" "\<not> isdigit LF"
  by (simp_all add: isspace_def isdigit_def CR_def LF_def)

text \<open>\<open>strtol\<close> converts nothing of an argument that is not numeric, line end included.\<close>

lemma strtol_non_numeric:
  assumes "non_numeric s"
  shows "strtol (s @ [CR, LF]) = (0, 0)"
proof -
  let ?t = "s @ [CR, LF]"
  have drop_eq: "drop (length (takeWhile isspace ?t)) ?t = dropWhile isspace ?t"
    by (simp add: dropWhile_eq_drop)
  show ?thesis
  proof (cases "dropWhile isspace s")
    case Nil
    then have "\<forall>c\<in>set s. isspace c" by (simp add: dropWhile_eq_Nil_conv)
    then have "dropWhile isspace ?t = []"
      by (simp add: isspace_CR_LF)
    then show ?thesis
      unfolding strtol_def Let_def drop_eq by simp
  next
    case (Cons c cs)
    then have "\<exists>x\<in>set s. \<not> isspace x"
      by (metis dropWhile_eq_Nil_conv list.distinct(1))
    then obtain x where "x \<in> set s" and "\<not> isspace x" by blast
    then have "dropWhile isspace ?t = dropWhile isspace s @ [CR, LF]"
      by (rule dropWhile_append1)
    with Cons have r: "dropWhile isspace ?t = c # cs @ [CR, LF]"
      by simp
    show ?thesis
    proof (cases "c = CHR ''-'' \<or> c = CHR ''+''")
      case True
      with assms Cons have "cs = [] \<or> \<not> isdigit (hd cs)"
        by (auto simp add: non_numeric_def Let_def)
      then have "takeWhile isdigit (cs @ [CR, LF]) = []"
        by (cases cs) (auto simp add: isspace_CR_LF)
      with True show ?thesis
        unfolding strtol_def Let_def drop_eq r by auto
    next
      case False
      with assms Cons have "\<not> isdigit c"
        by (auto simp add: non_numeric_def Let_def)
      with False show ?thesis
        unfolding strtol_def Let_def drop_eq r by auto
    qed
  qed
qed

lemma dial_not_numeric:
  assumes "arg \<noteq> []" and "NUL \<notin> set arg" and "CHR '' '' \<notin> set arg"
    and "take 2 arg \<noteq> [CR, LF]" and "non_numeric arg"
  shows "service_step pbx tu (''dial '' @ arg @ [CR, LF]) w =
     seq (pbx_dial pbx tu (- 1)) (\<lambda>_. ret Continue) w"
proof -
  from assms(1) obtain c cs where arg: "arg = c # cs" by (cases arg) auto
  with assms(2,3) have c: "c \<noteq> NUL" "c \<noteq> CHR '' ''" by auto
  have cs: "\<And>x. x \<in> set cs \<Longrightarrow> x \<noteq> NUL \<and> x \<noteq> CHR '' ''"
    using assms(2,3) arg by auto
  have "takeWhile (\<lambda>c. c \<noteq> NUL \<and> c \<noteq> CHR '' '') (cs @ [CR, LF, NUL]) =
      cs @ takeWhile (\<lambda>c. c \<noteq> NUL \<and> c \<noteq> CHR '' '') [CR, LF, NUL]"
    using cs by (rule takeWhile_append2)
  then have token: "takeWhile (\<lambda>c. c \<noteq> NUL \<and> c \<noteq> CHR '' '') (cs @ [CR, LF, NUL]) = cs @ [CR, LF]"
    by (simp add: CR_def LF_def NUL_def)
  have "takeWhile (\<lambda>c. c \<noteq> NUL) (cs @ [CR, LF, NUL]) = cs @ takeWhile (\<lambda>c. c \<noteq> NUL) [CR, LF, NUL]"
    using cs by (intro takeWhile_append2) simp
  then have string: "takeWhile (\<lambda>c. c \<noteq> NUL) (cs @ [CR, LF, NUL]) = cs @ [CR, LF]"
    by (simp add: CR_def LF_def NUL_def)
  have crlf: "\<not> (c = CR \<and> (cs @ [CR, LF, NUL]) ! 0 = LF)"
    using assms(4) arg by (cases cs) (auto simp add: CR_def LF_def)
  have last: "(cs @ [CR, LF, NUL]) ! Suc (Suc (length cs)) = NUL"
    by (simp add: nth_append)
  have st: "strtol (c # cs @ [CR, LF]) = (0, 0)"
    using strtol_non_numeric [OF assms(5)] arg by simp
  have nul: "CHR ''d'' \<noteq> NUL" "CHR ''i'' \<noteq> NUL" "CHR ''a'' \<noteq> NUL" "CHR ''l'' \<noteq> NUL"
    "CHR '' '' \<noteq> NUL" "NUL \<noteq> CHR ''0''"
    by (simp_all add: NUL_def)
  show ?thesis
    using c token string crlf last st nul
    by (simp add: service_step_def strtok_def cstr_def strncmp_eq_def arg int_of_long_def) blast
qed

text \<open>
  C10, as the code has it. A turn of the session's loop on the line \<open>dial\<close>, one
  space, CR LF (the argument token is the line end itself) returns to the \<open>read\<close>
  with the world as it was: no operation of a unit or of the registry has run and
  nothing was sent. On a line \<open>dial\<close>, one space, an argument and CR LF, where the
  argument is one token that starts no decimal number (\<open>non_numeric\<close>: after white
  space and one optional sign there is no digit), the turn is \<open>pbx_dial\<close> with
  extension -1, which for a live registry is \<open>tu_dial\<close> with the target \<open>NULL\<close>
  under the registry's semaphore. The session never looks at what follows the
  digits \<open>strtol\<close> has read, so this is as far as the hand-over of -1 goes.
\<close>

theorem dial_blank_or_not_numeric:
  "service_step pbx tu (''dial '' @ [CR, LF]) w = Return Continue w \<and>
   (arg \<noteq> [] \<and> NUL \<notin> set arg \<and> CHR '' '' \<notin> set arg \<and> take 2 arg \<noteq> [CR, LF] \<and>
    non_numeric arg \<longrightarrow>
      service_step pbx tu (''dial '' @ arg @ [CR, LF]) w =
        seq (pbx_dial pbx tu (- 1)) (\<lambda>_. ret Continue) w) \<and>
   pbx_dial (Some q) (Some a) (- 1) w =
     seq (pbx_sem_wait (Some q)) (\<lambda>_.
     seq (tu_dial (Some a) None) (\<lambda>r.
     seq (pbx_sem_post (Some q)) (\<lambda>_. ret (if r \<noteq> 0 then - 1 else 0)))) w"
proof (intro conjI impI)
  show "service_step pbx tu (''dial '' @ [CR, LF]) w = Return Continue w"
    by (simp add: service_step_def strtok_def cstr_def NUL_def CR_def LF_def strncmp_eq_def
        ret_def)
next
  assume "arg \<noteq> [] \<and> NUL \<notin> set arg \<and> CHR '' '' \<notin> set arg \<and> take 2 arg \<noteq> [CR, LF] \<and>
    non_numeric arg"
  then show "service_step pbx tu (''dial '' @ arg @ [CR, LF]) w =
        seq (pbx_dial pbx tu (- 1)) (\<lambda>_. ret Continue) w"
    by (intro dial_not_numeric) simp_all
next
  show "pbx_dial (Some q) (Some a) (- 1) w =
     seq (pbx_sem_wait (Some q)) (\<lambda>_.
     seq (tu_dial (Some a) None) (\<lambda>r.
     seq (pbx_sem_post (Some q)) (\<lambda>_. ret (if r \<noteq> 0 then - 1 else 0)))) w"
    by (simp add: pbx_dial_def PBX_MAX_EXTENSIONS_def seq_def ret_def split: result.splits)
qed

theorem dial_blank_or_not_numeric_witness:
  "non_numeric ''abc'' \<and>
   service_step (Some 1) (Some 2) (''dial '' @ [CR, LF]) dial_tone_world =
     Return Continue dial_tone_world \<and>
   returned (service_step (Some 1) (Some 2) (''dial '' @ ''abc'' @ [CR, LF]) dial_tone_world) =
     Some Continue \<and>
   after (service_step (Some 1) (Some 2) (''dial '' @ ''abc'' @ [CR, LF]) dial_tone_world) (\<lambda>w.
     state_at w 2 = Some TU_ERROR \<and> sent w = sent dial_tone_world @ [(4, ''ERROR'' @ [LF])])"
proof -
  have h: "''abc'' \<noteq> [] \<and> NUL \<notin> set ''abc'' \<and> CHR '' '' \<notin> set ''abc'' \<and>
      take 2 ''abc'' \<noteq> [CR, LF] \<and> non_numeric ''abc''"
    by (simp add: non_numeric_def isspace_def isdigit_def NUL_def CR_def)
  from dial_blank_or_not_numeric [of "Some 1" "Some 2" dial_tone_world "''abc''" 1 2] h
  show ?thesis
    by (simp add: observers worlds pbx_dial_def pbx_deref_def pbx_sem_wait_def pbx_sem_post_def
        tu_dial_def PBX_MAX_EXTENSIONS_def prims)
qed

text \<open>
  The claim sends every argument that is not a number to extension -1. The argument
  \<open>5x\<close> is not a number, and \<open>strtol\<close> reads its first character only. Unit 2 is in
  \<open>TU_DIAL_TONE\<close> and its client sends \<open>dial 5x\<close>: the turn ends in the world that
  dialling extension 5 gives, with unit 2 hearing the ring back and unit 3 ringing,
  where a dial of -1 would have left unit 2 in \<open>TU_ERROR\<close>.
\<close>

theorem dial_digit_prefix_counterexample:
  "\<not> list_all isdigit ''5x'' \<and>
   strtol (''5x'' @ [CR, LF]) = (5, 1) \<and>
   service_step (Some 1) (Some 2) (''dial '' @ ''5x'' @ [CR, LF]) dial_tone_world =
     Return Continue ringing_world \<and>
   state_at ringing_world 2 = Some TU_RING_BACK \<and>
   state_at ringing_world 3 = Some TU_RINGING \<and>
   state_after (pbx_dial (Some 1) (Some 2) (- 1) dial_tone_world) 2 = Some TU_ERROR \<and>
   state_after (service_step (Some 1) (Some 2) (''dial '' @ ''5x'' @ [CR, LF]) dial_tone_world) 2
     \<noteq> Some TU_ERROR"
  by (simp add: service_step_def strtok_def cstr_def strncmp_eq_def NUL_def CR_def LF_def
      strtol_def isspace_def isdigit_def decimal_def digit_val_def LONG_MAX_def LONG_MIN_def
      int_of_long_def observers worlds prims tu_ops pbx_ops fun_eq_iff)

subsection \<open>The port on the command line\<close>

lemmas strs = strtol_def isspace_def isdigit_def decimal_def digit_val_def LONG_MAX_def LONG_MIN_def
  int_of_long_def

lemma digit_val_nonneg: "isdigit c \<Longrightarrow> 0 \<le> digit_val c"
  by (auto simp add: isdigit_def digit_val_def)

lemma digit_not_space: "isdigit c \<Longrightarrow> \<not> isspace c \<and> c \<noteq> CHR ''-'' \<and> c \<noteq> CHR ''+''"
  by (auto simp add: isdigit_def isspace_def)

lemma foldl_decimal_nonneg:
  "\<forall>c\<in>set ds. isdigit c \<Longrightarrow> 0 \<le> acc \<Longrightarrow> 0 \<le> foldl (\<lambda>acc c. 10 * acc + digit_val c) acc ds"
proof (induction ds arbitrary: acc)
  case Nil
  then show ?case by simp
next
  case (Cons d ds)
  then have "0 \<le> 10 * acc + digit_val d"
    using digit_val_nonneg [of d] by simp
  with Cons show ?case by simp
qed

lemma strtol_digits:
  assumes "ds \<noteq> []" and "\<forall>c\<in>set ds. isdigit c" and "decimal ds \<le> LONG_MAX"
  shows "strtol ds = (decimal ds, length ds)"
proof -
  from assms(1) obtain d ds' where ds: "ds = d # ds'" by (cases ds) auto
  with assms(2) have d: "\<not> isspace d" "d \<noteq> CHR ''-''" "d \<noteq> CHR ''+''"
    using digit_not_space [of d] by auto
  have all: "takeWhile isdigit ds = ds"
    using assms(2) by (simp add: takeWhile_eq_all_conv)
  have "0 \<le> decimal ds"
    unfolding decimal_def using assms(2) by (intro foldl_decimal_nonneg) simp_all
  with assms(3) have clamp: "max LONG_MIN (min LONG_MAX (decimal ds)) = decimal ds"
    by (simp add: LONG_MIN_def)
  show ?thesis
    using d all clamp assms(1) unfolding ds strtol_def Let_def by simp
qed

text \<open>
  What \<open>main\<close> does with its arguments wherever the number fits an \<open>int\<close>: no
  argument gives port 3000; a wrong count and a flag other than \<open>-p\<close> give a
  diagnostic and \<open>EXIT_FAILURE\<close>; so does a port that \<open>strtol\<close> does not read to its
  end; a port of decimal digits below \<open>2 ^ 31\<close> is refused when it is below 1024 and
  used as given otherwise.
\<close>

lemma main_args_no_argument: "main_args [prog] = Listen_on ''3000''"
  by (simp add: main_args_def)

lemma main_args_wrong_count:
  "length argv \<noteq> 1 \<Longrightarrow> length argv \<noteq> 3 \<Longrightarrow>
   main_args argv = Exit_failure (Invalid_number_of_arguments (length argv))"
  by (simp add: main_args_def)

lemma main_args_unknown_flag:
  "flag \<noteq> ''-p'' \<Longrightarrow> main_args [prog, flag, port] = Exit_failure (Invalid_flag flag)"
  by (simp add: main_args_def)

lemma main_args_not_a_number:
  "snd (strtol port) \<noteq> length port \<Longrightarrow>
   main_args [prog, ''-p'', port] = Exit_failure (Invalid_port port)"
  by (auto simp add: main_args_def split: prod.splits)

lemma main_args_port_in_range:
  assumes "ds \<noteq> []" and "\<forall>c\<in>set ds. isdigit c" and "decimal ds < 2 ^ 31"
  shows "main_args [prog, ''-p'', ds] =
     (if decimal ds < 1024 then Exit_failure (Invalid_port ds) else Listen_on ds)"
proof -
  have "strtol ds = (decimal ds, length ds)"
    using assms by (intro strtol_digits) (simp_all add: LONG_MAX_def)
  moreover have "0 \<le> decimal ds"
    unfolding decimal_def using assms(2) by (intro foldl_decimal_nonneg) simp_all
  ultimately show ?thesis
    using assms(3) by (simp add: main_args_def int_of_long_def)
qed

text \<open>
  C8, at the input where the code departs from it. The port \<open>-4294966272\<close> is a
  number below 1024. \<open>strtol\<close> reads all of it into a \<open>long\<close>; the assignment to the
  \<open>int\<close> \<open>port_num\<close> keeps the low 32 bits, which are 1024; the test \<open>port_num < 1024\<close>
  lets it pass, no diagnostic is printed, and \<open>main\<close> goes on to listen on the
  argument. The claim, like the source's own diagnostic ("must be >= 1024"), refuses
  every port below 1024.
\<close>

theorem port_below_1024_accepted:
  "strtol ''-4294966272'' = (- 4294966272, length ''-4294966272'') \<and>
   (- 4294966272 :: int) < 1024 \<and>
   int_of_long (- 4294966272) = 1024 \<and>
   main_args [''pbx'', ''-p'', ''-4294966272''] = Listen_on ''-4294966272''"
  by (simp add: main_args_def strs)

theorem port_below_1024_accepted_witness:
  "main_args [''pbx'', ''-p'', ''-4294966272''] = Listen_on ''-4294966272''"
  using port_below_1024_accepted by simp

end
